theory Spec2Isabelle
  imports Main "HOL-Library.Word" "HOL-Library.Multiset"
begin

unbundle bit_operations_syntax

section \<open>The plugin-directory watcher (csiWatcher)\<close>

subsection \<open>Library values the watcher uses\<close>

text \<open>Go's \<open>error\<close> interface: \<open>nil\<close> is \<open>None\<close>, an error carries its message.\<close>

type_synonym error = string

text \<open>
  \<open>fsnotify.Op\<close> is a \<open>uint32\<close> bit mask; fsnotify.v1 declares
  \<open>Create Op = 1 << iota\<close>, then \<open>Write\<close>, \<open>Remove\<close>, \<open>Rename\<close>, \<open>Chmod\<close>.
\<close>

type_synonym Op = "32 word"

definition Create :: Op where "Create = push_bit 0 1"
definition Write :: Op where "Write = push_bit 1 1"
definition Remove :: Op where "Remove = push_bit 2 1"
definition Rename :: Op where "Rename = push_bit 3 1"
definition Chmod :: Op where "Chmod = push_bit 4 1"

record Event =
  Name :: string
  Op :: Op

text \<open>\<open>os.FileInfo\<close>, as far as \<open>init\<close> reads it: \<open>file.Name()\<close> and \<open>file.IsDir()\<close>.\<close>

record FileInfo =
  FileName :: string
  IsDir :: bool

definition ignoreDir :: string where
  "ignoreDir = ''kubernetes.io''"

definition Separator :: char where
  "Separator = CHR ''/''"

text \<open>
  \<open>filepath.Base\<close> on Unix: the empty path is \<open>.\<close>, trailing separators are
  stripped, the element after the last separator is returned, and a path of separators
  only is \<open>/\<close>.
\<close>

definition Base :: "string \<Rightarrow> string" where
  "Base p =
     (if p = [] then ''.''
      else let p1 = rev (dropWhile (\<lambda>c. c = Separator) (rev p));
               p2 = rev (takeWhile (\<lambda>c. c \<noteq> Separator) (rev p1))
           in if p2 = [] then [Separator] else p2)"

text \<open>
  \<open>filepath.Clean\<close> on Unix (no volume name). \<open>backtrack\<close> is the inner loop of the
  \<open>..\<close> case, which moves \<open>out.w\<close> back to the last separator; \<open>cleanLoop\<close> is the
  loop \<open>for r < n\<close> over the rest of the path, with the buffer written so far and
  \<open>dotdot\<close>.
\<close>

function backtrack :: "string \<Rightarrow> nat \<Rightarrow> nat \<Rightarrow> nat" where
  "backtrack out dotdot w =
     (if w > dotdot \<and> out ! w \<noteq> Separator then backtrack out dotdot (w - 1) else w)"
  by pat_completeness auto
termination
  by (relation "measure (\<lambda>(out, dotdot, w). w)") auto

declare backtrack.simps [simp del]

function cleanLoop :: "bool \<Rightarrow> string \<Rightarrow> string \<Rightarrow> nat \<Rightarrow> string" where
  "cleanLoop rooted [] out dotdot = out"
| "cleanLoop rooted (c # r) out dotdot =
     (if c = Separator then cleanLoop rooted r out dotdot
      else if c = CHR ''.'' \<and> (r = [] \<or> hd r = Separator) then cleanLoop rooted r out dotdot
      else if c = CHR ''.'' \<and> r \<noteq> [] \<and> hd r = CHR ''.'' \<and> (tl r = [] \<or> hd (tl r) = Separator) then
        (if length out > dotdot then
           cleanLoop rooted (tl r) (take (backtrack out dotdot (length out - 1)) out) dotdot
         else if \<not> rooted then
           cleanLoop rooted (tl r)
             ((if length out > 0 then out @ [Separator] else out) @ ''..'')
             (length ((if length out > 0 then out @ [Separator] else out) @ ''..''))
         else cleanLoop rooted (tl r) out dotdot)
      else
        cleanLoop rooted (dropWhile (\<lambda>x. x \<noteq> Separator) (c # r))
          ((if rooted \<and> length out \<noteq> 1 \<or> \<not> rooted \<and> length out \<noteq> 0
            then out @ [Separator] else out) @ takeWhile (\<lambda>x. x \<noteq> Separator) (c # r))
          dotdot)"
  by pat_completeness auto
termination
proof (relation "measure (\<lambda>(rooted, rest, out, dotdot). length rest)", goal_cases)
  case (7 rooted c r out dotdot)
  have "length (dropWhile (\<lambda>x. x \<noteq> Separator) r) \<le> length r"
    by (rule length_dropWhile_le)
  moreover from 7 have "c \<noteq> Separator" by blast
  ultimately show ?case by simp
qed (simp_all (no_asm))

definition Clean :: "string \<Rightarrow> string" where
  "Clean p =
     (if p = [] then ''.''
      else let rooted = (hd p = Separator);
               out = (if rooted then cleanLoop True (tl p) [Separator] 1
                      else cleanLoop False p [] 0)
           in if out = [] then ''.'' else out)"

text \<open>\<open>strings.Join(elem, "/")\<close>, and \<open>filepath.Join\<close>, which skips leading empty elements.\<close>

fun joinSep :: "string list \<Rightarrow> string" where
  "joinSep [] = []"
| "joinSep [e] = e"
| "joinSep (e # elem) = e @ [Separator] @ joinSep elem"

fun Join :: "string list \<Rightarrow> string" where
  "Join [] = []"
| "Join (e # elem) = (if e \<noteq> [] then Clean (joinSep (e # elem)) else Join elem)"

subsection \<open>The event filter of the consumer loop\<close>

text \<open>Line 64: \<open>event.Op&fsnotify.Create == fsnotify.Create || event.Op&fsnotify.Remove == fsnotify.Remove\<close>.\<close>

definition opMatches :: "Op \<Rightarrow> bool" where
  "opMatches op \<longleftrightarrow> op AND Create = Create \<or> op AND Remove = Remove"

subsection \<open>The session and its goroutines\<close>

text \<open>
  A channel that is only ever made and closed (\<open>stopCh\<close>): \<open>nil\<close> until \<open>start\<close>
  makes it, closed by \<open>stop\<close>.
\<close>

datatype chan = ChanNil | ChanOpen | ChanClosed

text \<open>
  \<open>*fsnotify.Watcher\<close>, as far as the session uses it: the paths given to \<open>Add\<close>,
  and whether \<open>Close\<close> has been called on it.
\<close>

record Watcher =
  watches :: "string list"
  isClosed :: bool

datatype logEntry =
    HandleEvent Event
  | HandleEventDriver Event string
  | IgnoreEvent Event
  | WatcherError error
  | StopError error
  | StopOK

text \<open>Where the call of \<open>start\<close> stands: the statement it executes next.\<close>

datatype start_pc =
    StartNotCalled
  | StartNewWatcher
  | StartSpawnLoop
  | StartInit
  | StartAdd
  | StartReturned "error option"

text \<open>
  The consumer goroutine of lines 56-86: not yet spawned, blocked in \<open>select\<close>, inside
  the call \<open>w.csiHandler(driverName)\<close> of line 69, or returned.
\<close>

datatype loop_pc = LoopNotStarted | LoopSelect | LoopInHandler string | LoopExited

datatype stop_pc = StopNotCalled | StopSelect | StopReturned "error option"

text \<open>The goroutine of lines 118-121: blocked in \<open>w.wg.Wait()\<close>, or done (\<open>c\<close> closed).\<close>

datatype waiter_pc = WaiterNotSpawned | WaiterWaiting | WaiterDone

text \<open>The struct \<open>csiWatcher\<close>; the handler is opaque, its calls are recorded below.\<close>

record csiWatcher =
  path :: string
  fsWatcher :: "Watcher option"
  stopCh :: chan
  wg :: int

text \<open>
  The running process: the struct, one program counter per goroutine, the goroutines of
  \<open>init\<close> blocked in their send (each with its \<open>fileName\<close>) or past it with the
  deferred \<open>Done\<close> still to run, the clock in nanoseconds, the timer of \<open>stop\<close>,
  and what the outside sees: the arguments of the handler calls in order, the number of
  handler calls that have returned, the log, and a panic of the process.
\<close>

record system = csiWatcher +
  startPc :: start_pc
  loopPc :: loop_pc
  injectors :: "string list"
  finishing :: nat
  stopPc :: stop_pc
  waiterPc :: waiter_pc
  now :: nat
  deadline :: nat
  handled :: "string list"
  completed :: nat
  klog :: "logEntry list"
  panicked :: "string option"

text \<open>
  What the collaborators answer: \<open>fsnotify.NewWatcher()\<close>, \<open>ioutil.ReadDir\<close>,
  \<open>fsWatcher.Add\<close> and \<open>fsWatcher.Close\<close>.
\<close>

record world =
  newWatcherErr :: "error option"
  readDir :: "string \<Rightarrow> error + FileInfo list"
  addErr :: "string \<Rightarrow> error option"
  closeErr :: "error option"

definition newCSIWatcher :: "string \<Rightarrow> system" where
  "newCSIWatcher p =
     \<lparr>path = p, fsWatcher = None, stopCh = ChanNil, wg = 0,
      startPc = StartNotCalled, loopPc = LoopNotStarted, injectors = [], finishing = 0,
      stopPc = StopNotCalled, waiterPc = WaiterNotSpawned, now = 0, deadline = 0,
      handled = [], completed = 0, klog = [], panicked = None\<rparr>"

text \<open>\<open>sync.WaitGroup\<close>: \<open>Add\<close>, and \<open>Done\<close>, which panics on a negative counter.\<close>

definition wgAdd :: "int \<Rightarrow> system \<Rightarrow> system" where
  "wgAdd n s = s\<lparr>wg := wg s + n\<rparr>"

definition wgDone :: "system \<Rightarrow> system" where
  "wgDone s =
     (if wg s - 1 < 0 then s\<lparr>panicked := Some ''sync: negative WaitGroup counter''\<rparr>
      else s\<lparr>wg := wg s - 1\<rparr>)"

subsection \<open>The statements of the goroutines\<close>

text \<open>
  Lines 61-75, run by the consumer goroutine itself on the event it has received:
  \<open>w.wg.Add(1)\<close>, then the function literal, which is called in place (there is no
  \<open>go\<close> in front of it). It ends either inside \<open>w.csiHandler(driverName)\<close>, the
  deferred \<open>Done\<close> still to run, or with the event dropped and \<open>Done\<close> run.
\<close>

definition dispatch :: "Event \<Rightarrow> system \<Rightarrow> system" where
  "dispatch event s =
     (let s1 = wgAdd 1 s in
      if opMatches (Op event) then
        let s2 = s1\<lparr>klog := klog s1 @ [HandleEvent event]\<rparr>;
            driverName = Base (Name event)
        in if driverName \<noteq> ignoreDir then
             s2\<lparr>klog := klog s2 @ [HandleEventDriver event driverName],
                handled := handled s2 @ [driverName],
                loopPc := LoopInHandler driverName\<rparr>
           else wgDone s2
      else wgDone (s1\<lparr>klog := klog s1 @ [IgnoreEvent event]\<rparr>))"

text \<open>The handler returns: the deferred \<open>Done\<close> of line 63, and \<open>continue\<close>.\<close>

definition handlerReturn :: "system \<Rightarrow> system" where
  "handlerReturn s = wgDone (s\<lparr>loopPc := LoopSelect, completed := completed s + 1\<rparr>)"

text \<open>
  Lines 99-110 of \<open>init\<close>: one goroutine per directory that is not the reserved one,
  counted before it is spawned; it blocks sending its event on \<open>w.fsWatcher.Events\<close>.
\<close>

fun initLoop :: "FileInfo list \<Rightarrow> system \<Rightarrow> system" where
  "initLoop [] s = s"
| "initLoop (file # files) s =
     initLoop files
       (if IsDir file \<and> FileName file \<noteq> ignoreDir
        then (wgAdd 1 s)\<lparr>injectors := injectors s @ [Join [path s, FileName file]]\<rparr>
        else s)"

definition init :: "world \<Rightarrow> system \<Rightarrow> error option \<times> system" where
  "init W s =
     (case readDir W (path s) of
        Inl err \<Rightarrow> (Some err, s)
      | Inr files \<Rightarrow> (None, initLoop files s))"

text \<open>\<open>start\<close>, one statement at a time (lines 48, 49-53, 55-86, 87-90, 91).\<close>

definition startStep :: "world \<Rightarrow> system \<Rightarrow> system option" where
  "startStep W s =
     (case startPc s of
        StartNotCalled \<Rightarrow> Some (s\<lparr>stopCh := ChanOpen, startPc := StartNewWatcher\<rparr>)
      | StartNewWatcher \<Rightarrow>
          (case newWatcherErr W of
             Some err \<Rightarrow>
               Some (s\<lparr>startPc :=
                  StartReturned (Some (''failed to start plugin fsWatcher, err: '' @ err))\<rparr>)
           | None \<Rightarrow>
               Some (s\<lparr>fsWatcher := Some \<lparr>watches = [], isClosed = False\<rparr>,
                       startPc := StartSpawnLoop\<rparr>))
      | StartSpawnLoop \<Rightarrow> Some ((wgAdd 1 s)\<lparr>loopPc := LoopSelect, startPc := StartInit\<rparr>)
      | StartInit \<Rightarrow>
          (case init W s of
             (Some err, s') \<Rightarrow> Some (s'\<lparr>startPc := StartReturned (Some err)\<rparr>)
           | (None, s') \<Rightarrow> Some (s'\<lparr>startPc := StartAdd\<rparr>))
      | StartAdd \<Rightarrow>
          (case fsWatcher s of
             None \<Rightarrow> Some (s\<lparr>panicked := Some ''nil pointer dereference''\<rparr>)
           | Some f \<Rightarrow>
               (case addErr W (path s) of
                  Some err \<Rightarrow> Some (s\<lparr>startPc := StartReturned (Some err)\<rparr>)
                | None \<Rightarrow>
                    Some (s\<lparr>fsWatcher := Some (f\<lparr>watches := watches f @ [path s]\<rparr>),
                            startPc := StartReturned None\<rparr>)))
      | StartReturned r \<Rightarrow> None)"

text \<open>\<open>time.Second\<close> in nanoseconds, and the bound of line 125.\<close>

definition Second :: nat where
  "Second = 1000000000"

definition stopTimeout :: nat where
  "stopTimeout = 11 * Second"

text \<open>
  Lines 116-123 of \<open>stop\<close>: \<open>close(w.stopCh)\<close> panics on a nil and on a closed
  channel; otherwise the waiting goroutine is spawned and the timer of the \<open>select\<close>
  is set.
\<close>

definition stopCall :: "system \<Rightarrow> system" where
  "stopCall s =
     (case stopCh s of
        ChanNil \<Rightarrow> s\<lparr>panicked := Some ''close of nil channel''\<rparr>
      | ChanClosed \<Rightarrow> s\<lparr>panicked := Some ''close of closed channel''\<rparr>
      | ChanOpen \<Rightarrow>
          s\<lparr>stopCh := ChanClosed, waiterPc := WaiterWaiting,
            deadline := now s + stopTimeout, stopPc := StopSelect\<rparr>)"

text \<open>Lines 128-135: after \<open>case <-c\<close>, \<open>w.fsWatcher.Close()\<close> and its result.\<close>

definition stopClose :: "world \<Rightarrow> system \<Rightarrow> system" where
  "stopClose W s =
     (case fsWatcher s of
        None \<Rightarrow> s\<lparr>panicked := Some ''nil pointer dereference''\<rparr>
      | Some f \<Rightarrow>
          (case closeErr W of
             Some err \<Rightarrow>
               s\<lparr>fsWatcher := Some (f\<lparr>isClosed := True\<rparr>),
                 klog := klog s @ [StopError err], stopPc := StopReturned (Some err)\<rparr>
           | None \<Rightarrow>
               s\<lparr>fsWatcher := Some (f\<lparr>isClosed := True\<rparr>),
                 klog := klog s @ [StopOK], stopPc := StopReturned None\<rparr>))"

definition timeoutError :: error where
  "timeoutError = ''timeout on stopping watcher''"

definition watcherOpen :: "system \<Rightarrow> bool" where
  "watcherOpen s = (case fsWatcher s of None \<Rightarrow> False | Some f \<Rightarrow> \<not> isClosed f)"

subsection \<open>Interleavings\<close>

text \<open>
  One action is one step of one goroutine, or of the outside:
  \<^item> \<open>StartStep\<close>: the caller of \<open>start\<close> runs its next statement;
  \<^item> \<open>RecvInjected i\<close>: the consumer's \<open>select\<close> takes the event the \<open>i\<close>-th blocked
    goroutine of \<open>init\<close> is sending, and runs lines 61-75 on it;
  \<^item> \<open>RecvLive e\<close>: the same for an event \<open>e\<close> of the notification source;
  \<^item> \<open>RecvError err\<close>: the \<open>select\<close> takes a value of the error stream;
  \<^item> \<open>HandlerReturn\<close>: the handler call in progress returns;
  \<^item> \<open>LoopStop\<close>: the \<open>select\<close> takes \<open><-w.stopCh\<close> and the goroutine returns;
  \<^item> \<open>InjectorDone\<close>: a goroutine of \<open>init\<close> whose send is over runs its \<open>Done\<close>;
  \<^item> \<open>StopCall\<close>: somebody calls \<open>stop\<close>;
  \<^item> \<open>WaiterWake\<close>: \<open>w.wg.Wait()\<close> returns at counter zero and \<open>c\<close> is closed;
  \<^item> \<open>StopChanC\<close>, \<open>StopTimeout\<close>: the two cases of the \<open>select\<close> in \<open>stop\<close>;
  \<^item> \<open>Tick d\<close>: \<open>d\<close> nanoseconds pass.
  A step that is not enabled is \<open>None\<close>; after a panic nothing is.
\<close>

datatype action =
    StartStep
  | RecvInjected nat
  | RecvLive Event
  | RecvError "error option"
  | HandlerReturn
  | LoopStop
  | InjectorDone
  | StopCall
  | WaiterWake
  | StopChanC
  | StopTimeout
  | Tick nat

definition step :: "world \<Rightarrow> action \<Rightarrow> system \<Rightarrow> system option" where
  "step W a s =
     (if panicked s \<noteq> None then None
      else case a of
        StartStep \<Rightarrow> startStep W s
      | RecvInjected i \<Rightarrow>
          if loopPc s = LoopSelect \<and> i < length (injectors s) then
            Some (dispatch \<lparr>Name = injectors s ! i, Op = Create\<rparr>
                    (s\<lparr>injectors := take i (injectors s) @ drop (Suc i) (injectors s),
                       finishing := finishing s + 1\<rparr>))
          else None
      | RecvLive event \<Rightarrow>
          if loopPc s = LoopSelect \<and> watcherOpen s then Some (dispatch event s) else None
      | RecvError err \<Rightarrow>
          if loopPc s = LoopSelect \<and> watcherOpen s then
            Some (case err of None \<Rightarrow> s | Some e \<Rightarrow> s\<lparr>klog := klog s @ [WatcherError e]\<rparr>)
          else None
      | HandlerReturn \<Rightarrow>
          (case loopPc s of LoopInHandler n \<Rightarrow> Some (handlerReturn s) | _ \<Rightarrow> None)
      | LoopStop \<Rightarrow>
          if loopPc s = LoopSelect \<and> stopCh s = ChanClosed
          then Some (wgDone (s\<lparr>loopPc := LoopExited\<rparr>)) else None
      | InjectorDone \<Rightarrow>
          if 0 < finishing s then Some (wgDone (s\<lparr>finishing := finishing s - 1\<rparr>)) else None
      | StopCall \<Rightarrow> Some (stopCall s)
      | WaiterWake \<Rightarrow>
          if waiterPc s = WaiterWaiting \<and> wg s = 0
          then Some (s\<lparr>waiterPc := WaiterDone\<rparr>) else None
      | StopChanC \<Rightarrow>
          if stopPc s = StopSelect \<and> waiterPc s = WaiterDone then Some (stopClose W s) else None
      | StopTimeout \<Rightarrow>
          if stopPc s = StopSelect \<and> deadline s \<le> now s
          then Some (s\<lparr>stopPc := StopReturned (Some timeoutError)\<rparr>) else None
      | Tick d \<Rightarrow> Some (s\<lparr>now := now s + d\<rparr>))"

text \<open>A schedule is run from left to right; it fails where a step is not enabled.\<close>

fun run :: "world \<Rightarrow> action list \<Rightarrow> system \<Rightarrow> system option" where
  "run W [] s = Some s"
| "run W (a # as) s = (case step W a s of None \<Rightarrow> None | Some s' \<Rightarrow> run W as s')"

section \<open>The delete-pvc script (main.go)\<close>

text \<open>
  \<open>metav1.OwnerReference\<close> with the fields the script reads (\<open>Name\<close> is \<open>RefName\<close>
  here), and \<open>metav1.GetControllerOf\<close>: the first owner reference whose
  \<open>Controller\<close> pointer is set and true.
\<close>

record OwnerReference =
  Kind :: string
  RefName :: string
  Controller :: "bool option"

definition GetControllerOf :: "OwnerReference list \<Rightarrow> OwnerReference option" where
  "GetControllerOf refs = find (\<lambda>ref. Controller ref = Some True) refs"

text \<open>A volume with its \<open>PersistentVolumeClaim\<close> source (nil or a claim name), and a pod.\<close>

record Volume =
  PersistentVolumeClaim :: "string option"

record Pod =
  Volumes :: "Volume list"
  OwnerReferences :: "OwnerReference list"

text \<open>
  What the API server answers to the package-level clients: \<open>podClient.List\<close>,
  \<open>replicaSetClient.Get\<close> (the owner references of the replica set),
  \<open>statefulSetClient.Delete\<close> and \<open>deploymentClient.Delete\<close>.
\<close>

record cluster =
  podList :: "error + Pod list"
  replicaSetGet :: "string \<Rightarrow> error + OwnerReference list"
  statefulSetDelete :: "string \<Rightarrow> error option"
  deploymentDelete :: "string \<Rightarrow> error option"

text \<open>The body of the inner loop of \<open>workloadOfPVC\<close> once a volume matches (lines 121-140).\<close>

definition ownerOfPod :: "cluster \<Rightarrow> Pod \<Rightarrow> error + OwnerReference option" where
  "ownerOfPod C pod =
     (case GetControllerOf (OwnerReferences pod) of
        None \<Rightarrow> Inl ''pod ownerReference is nil''
      | Some podOwner \<Rightarrow>
          if Kind podOwner = ''StatefulSet'' then Inr (Some podOwner)
          else if Kind podOwner = ''ReplicaSet'' then
            (case replicaSetGet C (RefName podOwner) of
               Inl err \<Rightarrow> Inl err
             | Inr rs \<Rightarrow>
                 (case GetControllerOf rs of
                    None \<Rightarrow> Inl ''rs ownerReference is nil''
                  | Some rsOwner \<Rightarrow> Inr (Some rsOwner)))
          else Inl (''ownerReference kind: '' @ Kind podOwner))"

text \<open>The two loops; \<open>None\<close> is a loop that ran to its end without returning.\<close>

fun volumesLoop ::
  "cluster \<Rightarrow> string \<Rightarrow> Pod \<Rightarrow> Volume list \<Rightarrow> (error + OwnerReference option) option" where
  "volumesLoop C pvcName pod [] = None"
| "volumesLoop C pvcName pod (volume # volumes) =
     (if PersistentVolumeClaim volume \<noteq> None \<and> PersistentVolumeClaim volume = Some pvcName
      then Some (ownerOfPod C pod)
      else volumesLoop C pvcName pod volumes)"

fun podsLoop :: "cluster \<Rightarrow> string \<Rightarrow> Pod list \<Rightarrow> error + OwnerReference option" where
  "podsLoop C pvcName [] = Inr None"
| "podsLoop C pvcName (pod # pods) =
     (case volumesLoop C pvcName pod (Volumes pod) of
        Some r \<Rightarrow> r
      | None \<Rightarrow> podsLoop C pvcName pods)"

definition workloadOfPVC :: "cluster \<Rightarrow> string \<Rightarrow> error + OwnerReference option" where
  "workloadOfPVC C pvcName =
     (case podList C of
        Inl err \<Rightarrow> Inl err
      | Inr items \<Rightarrow> podsLoop C pvcName items)"

text \<open>
  \<open>deleteWorkload\<close>: the deletion calls it issues, in order, and the error it returns.
\<close>

datatype api_call = StatefulSetsDelete string | DeploymentsDelete string

definition deleteWorkload :: "cluster \<Rightarrow> OwnerReference \<Rightarrow> api_call list \<times> error option" where
  "deleteWorkload C owner =
     (if Kind owner = ''StatefulSet''
      then ([StatefulSetsDelete (RefName owner)], statefulSetDelete C (RefName owner))
      else if Kind owner = ''Deployment''
      then ([DeploymentsDelete (RefName owner)], deploymentDelete C (RefName owner))
      else ([], Some (''unkown workload: '' @ Kind owner @ '' '')))"

section \<open>Invariants of the session\<close>

text \<open>
  The tasks the wait group counts: the consumer goroutine while it runs (twice while it is
  inside a handler call, for the \<open>Add\<close> of line 61), the goroutines of \<open>init\<close> that are
  still blocked in their send, and those whose \<open>Done\<close> is still to run.
\<close>

definition tracked :: "system \<Rightarrow> int" where
  "tracked s =
     (case loopPc s of
        LoopNotStarted \<Rightarrow> 0 | LoopSelect \<Rightarrow> 1 | LoopInHandler n \<Rightarrow> 2 | LoopExited \<Rightarrow> 0)
     + int (length (injectors s)) + int (finishing s)"

definition closed :: "system \<Rightarrow> bool" where
  "closed s = (case fsWatcher s of None \<Rightarrow> False | Some f \<Rightarrow> isClosed f)"

definition startReturned :: "system \<Rightarrow> bool" where
  "startReturned s = (case startPc s of StartReturned r \<Rightarrow> True | _ \<Rightarrow> False)"

text \<open>What holds in every state the session can reach from \<open>newCSIWatcher\<close>.\<close>

definition sane :: "world \<Rightarrow> system \<Rightarrow> bool" where
  "sane W s \<longleftrightarrow>
     wg s = tracked s
   \<and> (stopCh s = ChanNil \<longleftrightarrow> startPc s = StartNotCalled)
   \<and> (startPc s = StartNotCalled \<or> startPc s = StartNewWatcher \<longrightarrow> fsWatcher s = None)
   \<and> (startPc s = StartSpawnLoop \<longrightarrow> fsWatcher s \<noteq> None \<and> loopPc s = LoopNotStarted)
   \<and> (startPc s = StartInit \<or> startPc s = StartAdd \<longrightarrow>
        fsWatcher s \<noteq> None \<and> loopPc s \<noteq> LoopNotStarted)
   \<and> (startReturned s \<and> fsWatcher s \<noteq> None \<longrightarrow> loopPc s \<noteq> LoopNotStarted)
   \<and> (fsWatcher s = None \<longrightarrow> loopPc s = LoopNotStarted)
   \<and> (loopPc s = LoopNotStarted \<longrightarrow> injectors s = [] \<and> finishing s = 0)
   \<and> (stopPc s = StopNotCalled \<longrightarrow>
        waiterPc s = WaiterNotSpawned \<and> stopCh s \<noteq> ChanClosed \<and> \<not> closed s)
   \<and> (stopPc s \<noteq> StopNotCalled \<longrightarrow> stopCh s = ChanClosed \<and> waiterPc s \<noteq> WaiterNotSpawned)
   \<and> (stopPc s = StopSelect \<longrightarrow> \<not> closed s)
   \<and> (closed s \<longrightarrow> waiterPc s = WaiterDone \<and> stopPc s = StopReturned (closeErr W))
   \<and> (case loopPc s of
         LoopInHandler n \<Rightarrow> handled s \<noteq> [] \<and> last (handled s) = n
                             \<and> length (handled s) = Suc (completed s)
       | _ \<Rightarrow> length (handled s) = completed s)
   \<and> ignoreDir \<notin> set (handled s)"

section \<open>A session on the plugin directory, and a cluster\<close>

text \<open>
  The directory of \<open>main\<close> with the entries \<open>A\<close>, \<open>B\<close> and the reserved one, a session on it
  after \<open>start\<close> has returned, a live event, and a cluster in which the claim \<open>data\<close> is
  mounted by a pod of a replica set that a daemon set controls.
\<close>

definition pluginsDir :: string where
  "pluginsDir = ''/var/lib/kubelet/plugins''"

definition pluginsWorld :: world where
  "pluginsWorld =
     \<lparr>newWatcherErr = None,
      readDir = (\<lambda>p. Inr [\<lparr>FileName = ''A'', IsDir = True\<rparr>, \<lparr>FileName = ''B'', IsDir = True\<rparr>,
                          \<lparr>FileName = ''kubernetes.io'', IsDir = True\<rparr>]),
      addErr = (\<lambda>p. None), closeErr = None\<rparr>"

definition started :: system where
  "started =
     \<lparr>path = pluginsDir,
      fsWatcher = Some \<lparr>watches = [pluginsDir], isClosed = False\<rparr>,
      stopCh = ChanOpen, wg = 3, startPc = StartReturned None, loopPc = LoopSelect,
      injectors = [''/var/lib/kubelet/plugins/A'', ''/var/lib/kubelet/plugins/B''],
      finishing = 0, stopPc = StopNotCalled, waiterPc = WaiterNotSpawned,
      now = 0, deadline = 0, handled = [], completed = 0, klog = [], panicked = None\<rparr>"

definition createdC :: Event where
  "createdC = \<lparr>Name = ''/var/lib/kubelet/plugins/C'', Op = Create OR Write\<rparr>"

definition daemonSetCluster :: cluster where
  "daemonSetCluster =
     \<lparr>podList = Inr [\<lparr>Volumes = [\<lparr>PersistentVolumeClaim = None\<rparr>, \<lparr>PersistentVolumeClaim = Some ''data''\<rparr>],
                       OwnerReferences = [\<lparr>Kind = ''ReplicaSet'', RefName = ''web-5d9'', Controller = Some True\<rparr>]\<rparr>],
      replicaSetGet = (\<lambda>n. Inr [\<lparr>Kind = ''DaemonSet'', RefName = ''web'', Controller = Some True\<rparr>]),
      statefulSetDelete = (\<lambda>n. None),
      deploymentDelete = (\<lambda>n. None)\<rparr>"

section \<open>Properties of the event filter\<close>

lemma and_exp_eq_iff_bit:
  fixes op :: Op
  assumes "n < 32"
  shows "op AND 2 ^ n = 2 ^ n \<longleftrightarrow> bit op n"
proof
  assume h: "op AND 2 ^ n = 2 ^ n"
  have "bit ((2::Op) ^ n) n" using assms by (simp add: bit_exp_iff)
  with h have "bit (op AND 2 ^ n) n" by simp
  then show "bit op n" by (simp add: bit_and_iff)
next
  assume "bit op n"
  then show "op AND 2 ^ n = 2 ^ n"
    by (intro bit_eqI) (auto simp add: bit_and_iff bit_exp_iff)
qed

lemma opMatches_bits: "opMatches op \<longleftrightarrow> bit op 0 \<or> bit op 2"
  unfolding opMatches_def Create_def Remove_def
  using and_exp_eq_iff_bit [of 0 op] and_exp_eq_iff_bit [of 2 op] by simp

lemma opMatches_or: "opMatches (a OR b) \<longleftrightarrow> opMatches a \<or> opMatches b"
  by (auto simp add: opMatches_bits bit_or_iff)

lemma opMatches_Create: "opMatches Create"
  by (simp add: opMatches_def)

text \<open>What \<open>Done\<close> and \<open>Add\<close> leave alone.\<close>

lemma wgDone_fields [simp]:
  "handled (wgDone s) = handled s" "klog (wgDone s) = klog s" "loopPc (wgDone s) = loopPc s"
  "injectors (wgDone s) = injectors s" "finishing (wgDone s) = finishing s"
  "startPc (wgDone s) = startPc s" "stopPc (wgDone s) = stopPc s"
  "waiterPc (wgDone s) = waiterPc s" "fsWatcher (wgDone s) = fsWatcher s"
  "stopCh (wgDone s) = stopCh s" "path (wgDone s) = path s" "now (wgDone s) = now s"
  "deadline (wgDone s) = deadline s" "completed (wgDone s) = completed s"
  by (simp_all add: wgDone_def)

lemma wgAdd_fields [simp]:
  "handled (wgAdd n s) = handled s" "klog (wgAdd n s) = klog s" "loopPc (wgAdd n s) = loopPc s"
  "injectors (wgAdd n s) = injectors s" "finishing (wgAdd n s) = finishing s"
  "startPc (wgAdd n s) = startPc s" "stopPc (wgAdd n s) = stopPc s"
  "waiterPc (wgAdd n s) = waiterPc s" "fsWatcher (wgAdd n s) = fsWatcher s"
  "stopCh (wgAdd n s) = stopCh s" "path (wgAdd n s) = path s" "now (wgAdd n s) = now s"
  "deadline (wgAdd n s) = deadline s" "completed (wgAdd n s) = completed s"
  "panicked (wgAdd n s) = panicked s" "wg (wgAdd n s) = wg s + n"
  by (simp_all add: wgAdd_def)

lemma dispatch_handled:
  "handled (dispatch event s) =
     (if opMatches (Op event) \<and> Base (Name event) \<noteq> ignoreDir
      then handled s @ [Base (Name event)] else handled s)"
  by (simp add: dispatch_def Let_def)

lemma dispatch_loopPc:
  "loopPc (dispatch event s) =
     (if opMatches (Op event) \<and> Base (Name event) \<noteq> ignoreDir
      then LoopInHandler (Base (Name event)) else loopPc s)"
  by (simp add: dispatch_def Let_def)

lemma dispatch_klog:
  "klog (dispatch event s) =
     (if opMatches (Op event) then
        (if Base (Name event) \<noteq> ignoreDir
         then klog s @ [HandleEvent event, HandleEventDriver event (Base (Name event))]
         else klog s @ [HandleEvent event])
      else klog s @ [IgnoreEvent event])"
  by (simp add: dispatch_def Let_def)

text \<open>
  C5. A record the consumer loop receives from the notification source passes the filter
  exactly when its \<open>Op\<close> has the \<open>Create\<close> bit or the \<open>Remove\<close> bit set, whatever other
  bits are set with it; it then reaches the handler unless its leaf name is the reserved
  one. A record of any other kind is logged as ignored, the handler is not called, and the
  loop is back in its \<open>select\<close>.
\<close>

theorem filter_passes_create_or_remove_only:
  assumes "step W (RecvLive event) s = Some s'"
  shows "(handled s' \<noteq> handled s \<longrightarrow>
            Op event AND Create = Create \<or> Op event AND Remove = Remove)
       \<and> ((Op event AND Create = Create \<or> Op event AND Remove = Remove)
            \<and> Base (Name event) \<noteq> ignoreDir \<longrightarrow>
            handled s' = handled s @ [Base (Name event)]
            \<and> loopPc s' = LoopInHandler (Base (Name event)))
       \<and> (\<not> (Op event AND Create = Create \<or> Op event AND Remove = Remove) \<longrightarrow>
            handled s' = handled s \<and> klog s' = klog s @ [IgnoreEvent event]
            \<and> loopPc s' = LoopSelect)
       \<and> ((Op event AND Create = Create \<or> Op event AND Remove = Remove)
            \<longleftrightarrow> bit (Op event) 0 \<or> bit (Op event) 2)
       \<and> (\<forall>op. opMatches (op OR Create) \<and> opMatches (op OR Remove))"
proof -
  from assms have sel: "loopPc s = LoopSelect" and s': "s' = dispatch event s"
    by (auto simp add: step_def split: if_splits)
  have m: "(Op event AND Create = Create \<or> Op event AND Remove = Remove) = opMatches (Op event)"
    by (simp add: opMatches_def)
  have u: "\<forall>op. opMatches (op OR Create) \<and> opMatches (op OR Remove)"
    by (simp add: opMatches_or opMatches_Create) (simp add: opMatches_def)
  show ?thesis
    unfolding m s' using sel u
    by (simp add: dispatch_handled dispatch_loopPc dispatch_klog opMatches_bits)
qed

lemma step_createdC:
  "step pluginsWorld (RecvLive createdC) started =
     Some (started\<lparr>wg := 4, loopPc := LoopInHandler ''C'', handled := [''C''],
             klog := [HandleEvent createdC, HandleEventDriver createdC ''C'']\<rparr>)"
  by code_simp

theorem filter_passes_create_or_remove_only_witness:
  "step pluginsWorld (RecvLive createdC) started \<noteq> None
   \<and> handled (the (step pluginsWorld (RecvLive createdC) started)) = [''C'']
   \<and> loopPc (the (step pluginsWorld (RecvLive createdC) started)) = LoopInHandler ''C''"
proof -
  let ?s' = "started\<lparr>wg := 4, loopPc := LoopInHandler ''C'', handled := [''C''],
             klog := [HandleEvent createdC, HandleEventDriver createdC ''C'']\<rparr>"
  have h: "step pluginsWorld (RecvLive createdC) started = Some ?s'" by (rule step_createdC)
  have b: "Base (Name createdC) = ''C''" by code_simp
  have i: "''C'' \<noteq> ignoreDir" by (simp add: ignoreDir_def)
  from filter_passes_create_or_remove_only [OF h] b i show ?thesis
    unfolding h by (simp add: started_def)
qed

section \<open>Properties of the session\<close>

lemma initLoop_fields [simp]:
  "startPc (initLoop files s) = startPc s" "loopPc (initLoop files s) = loopPc s"
  "stopPc (initLoop files s) = stopPc s" "waiterPc (initLoop files s) = waiterPc s"
  "fsWatcher (initLoop files s) = fsWatcher s" "stopCh (initLoop files s) = stopCh s"
  "path (initLoop files s) = path s" "now (initLoop files s) = now s"
  "deadline (initLoop files s) = deadline s" "completed (initLoop files s) = completed s"
  "handled (initLoop files s) = handled s" "klog (initLoop files s) = klog s"
  "finishing (initLoop files s) = finishing s" "panicked (initLoop files s) = panicked s"
  by (induction files arbitrary: s; simp)+

lemma initLoop_injectors:
  "injectors (initLoop files s) =
     injectors s @ map (\<lambda>f. Join [path s, FileName f])
        (filter (\<lambda>f. IsDir f \<and> FileName f \<noteq> ignoreDir) files)"
  by (induction files arbitrary: s) (simp_all del: Join.simps)

lemma initLoop_wg:
  "wg (initLoop files s) =
     wg s + int (length (filter (\<lambda>f. IsDir f \<and> FileName f \<noteq> ignoreDir) files))"
  by (induction files arbitrary: s) (simp_all del: Join.simps)

lemma sane_new: "sane W (newCSIWatcher p)"
  by (simp add: sane_def newCSIWatcher_def tracked_def closed_def startReturned_def)

section \<open>Properties of the script\<close>

lemma volumesLoop_hit:
  "Some pvcName \<in> PersistentVolumeClaim ` set volumes \<Longrightarrow>
   volumesLoop C pvcName pod volumes = Some (ownerOfPod C pod)"
  by (induction volumes) auto

text \<open>
  C10. \<open>deleteWorkload\<close> issues a deletion call exactly for the kinds \<open>StatefulSet\<close> and
  \<open>Deployment\<close>; for any other kind it issues none and returns the error that names the
  kind. \<open>workloadOfPVC\<close>, for a pod of a replica set, returns the controller of the replica
  set whatever its kind is.
\<close>

theorem deleteWorkload_known_kinds_only:
  "fst (deleteWorkload C owner) =
     (if Kind owner = ''StatefulSet'' then [StatefulSetsDelete (RefName owner)]
      else if Kind owner = ''Deployment'' then [DeploymentsDelete (RefName owner)]
      else [])
   \<and> (Kind owner \<noteq> ''StatefulSet'' \<and> Kind owner \<noteq> ''Deployment'' \<longrightarrow>
        deleteWorkload C owner = ([], Some (''unkown workload: '' @ Kind owner @ '' '')))
   \<and> (\<forall>pvcName pod pods podOwner rs.
        podList C = Inr (pod # pods)
        \<and> Some pvcName \<in> PersistentVolumeClaim ` set (Volumes pod)
        \<and> GetControllerOf (OwnerReferences pod) = Some podOwner
        \<and> Kind podOwner = ''ReplicaSet''
        \<and> replicaSetGet C (RefName podOwner) = Inr rs
        \<and> GetControllerOf rs = Some owner
        \<longrightarrow> workloadOfPVC C pvcName = Inr (Some owner))"
  by (auto simp add: deleteWorkload_def workloadOfPVC_def volumesLoop_hit ownerOfPod_def)

theorem deleteWorkload_known_kinds_only_witness:
  "workloadOfPVC daemonSetCluster ''data''
     = Inr (Some \<lparr>Kind = ''DaemonSet'', RefName = ''web'', Controller = Some True\<rparr>)
   \<and> deleteWorkload daemonSetCluster \<lparr>Kind = ''DaemonSet'', RefName = ''web'', Controller = Some True\<rparr>
     = ([], Some ''unkown workload: DaemonSet '')"
proof -
  let ?owner = "\<lparr>Kind = ''DaemonSet'', RefName = ''web'', Controller = Some True\<rparr>"
  have "Kind ?owner \<noteq> ''StatefulSet'' \<and> Kind ?owner \<noteq> ''Deployment''" by simp
  moreover have "podList daemonSetCluster =
      Inr (\<lparr>Volumes = [\<lparr>PersistentVolumeClaim = None\<rparr>, \<lparr>PersistentVolumeClaim = Some ''data''\<rparr>],
            OwnerReferences = [\<lparr>Kind = ''ReplicaSet'', RefName = ''web-5d9'', Controller = Some True\<rparr>]\<rparr> # [])"
    by (simp add: daemonSetCluster_def)
  ultimately show ?thesis
    using deleteWorkload_known_kinds_only [of daemonSetCluster ?owner]
    by (simp add: daemonSetCluster_def GetControllerOf_def)
qed

end
